theory Spec2Isabelle
  imports Main "HOL-Library.Word"
begin

section \<open>Property grid editors: \<^verbatim>\<open>interface/wx/propgrid/editors.h\<close>\<close>

text \<open>
  The header declares two classes. \<^verbatim>\<open>wxPGEditor\<close> is the abstract base of all
  property editors: apart from its constructor every member is either pure virtual or
  declared without a body. \<^verbatim>\<open>wxPGMultiButton\<close> is a window holding a row of buttons;
  its accessors, \<^verbatim>\<open>GetPrimarySize\<close> and \<^verbatim>\<open>FinalizePosition\<close> are defined
  inline, its constructor and the two \<^verbatim>\<open>Add\<close> overloads are declared only.

  A C++ \<^verbatim>\<open>int\<close> and an \<^verbatim>\<open>unsigned int\<close> are 32-bit words. Addition and
  subtraction on words wrap around; \<open>sint\<close> reads a word as the signed value of an
  \<^verbatim>\<open>int\<close>, \<open>unat\<close> as the value of an \<^verbatim>\<open>unsigned int\<close>.
\<close>

type_synonym cint = "32 word"
type_synonym cuint = "32 word"

subsection \<open>Geometry\<close>

text \<open>\<^verbatim>\<open>wxSize\<close> and \<^verbatim>\<open>wxPoint\<close>: two \<^verbatim>\<open>int\<close> members \<^verbatim>\<open>x\<close> and \<^verbatim>\<open>y\<close> each.\<close>

datatype wxSize = wxSize (size_x: cint) (size_y: cint)

datatype wxPoint = wxPoint (point_x: cint) (point_y: cint)

subsection \<open>\<^verbatim>\<open>wxPGEditor\<close>\<close>

text \<open>A \<^verbatim>\<open>void*\<close>: the null pointer or an address.\<close>

datatype voidptr = NULL | Addr nat

record wxPGEditor =
  m_clientData :: voidptr

text \<open>
  \<^verbatim>\<open>wxPGEditor() : wxObject() { m_clientData = NULL; }\<close>
\<close>

definition wxPGEditor_ctor :: wxPGEditor where
  "wxPGEditor_ctor = \<lparr>m_clientData = NULL\<rparr>"

text \<open>
  Modelled from the spec: the bodies of the default \<^verbatim>\<open>wxPGEditor::InsertItem\<close> and
  \<^verbatim>\<open>wxPGEditor::DeleteItem\<close>, which the header only declares (its comments say
  "Default implementation does nothing"). The spec gives them as "default no-op (return
  -1 / do nothing) for editors without a list representation". Both methods are
  \<^verbatim>\<open>const\<close> and receive the control by pointer; the model returns the control's state
  after the call, and for \<^verbatim>\<open>InsertItem\<close> the returned index with it. The state of the
  control is of any type \<open>'w\<close>.
\<close>

definition InsertItem :: "'w \<Rightarrow> string \<Rightarrow> cint \<Rightarrow> 'w \<times> cint" where
  "InsertItem ctrl label index = (ctrl, - 1)"

definition DeleteItem :: "'w \<Rightarrow> cint \<Rightarrow> 'w" where
  "DeleteItem ctrl index = ctrl"

subsection \<open>\<^verbatim>\<open>wxPGMultiButton\<close>\<close>

text \<open>
  A button of the row is a window with an identifier and a width; it shows a text label
  or a bitmap. \<^verbatim>\<open>GetId\<close> is the identifier the button was created with.
\<close>

datatype button_face = Label string | Bitmap nat

record wxButton =
  button_face :: button_face
  m_windowId :: cint
  button_width :: cint

definition GetId :: "wxButton \<Rightarrow> cint" where
  "GetId b = m_windowId b"

text \<open>
  The members the inline code reads: the array \<^verbatim>\<open>m_buttons\<close>, the size of the whole
  editor cell \<^verbatim>\<open>m_fullEditorSize\<close> and the width taken by the buttons
  \<^verbatim>\<open>m_buttonsWidth\<close>. \<open>m_position\<close> is the position of the window itself, which
  \<^verbatim>\<open>wxPGMultiButton\<close> inherits from \<^verbatim>\<open>wxWindow\<close>.
\<close>

record wxPGMultiButton =
  m_position :: wxPoint
  m_buttons :: "wxButton list"
  m_fullEditorSize :: wxSize
  m_buttonsWidth :: cint

text \<open>
  Indexing \<^verbatim>\<open>m_buttons[i]\<close> outside the array is not a recoverable error of the
  program: it is a failed assertion or undefined behaviour. The model makes it a value.
\<close>

datatype error = IndexOutOfRange

text \<open>
  \<^verbatim>\<open>wxWindow* GetButton( unsigned int i ) { return (wxWindow*) m_buttons[i]; }\<close>
\<close>

definition GetButton :: "wxPGMultiButton \<Rightarrow> cuint \<Rightarrow> error + wxButton" where
  "GetButton mb i =
     (if unat i < length (m_buttons mb) then Inr (m_buttons mb ! unat i)
      else Inl IndexOutOfRange)"

text \<open>
  \<^verbatim>\<open>int GetButtonId( unsigned int i ) const { return GetButton(i)->GetId(); }\<close>
\<close>

definition GetButtonId :: "wxPGMultiButton \<Rightarrow> cuint \<Rightarrow> error + cint" where
  "GetButtonId mb i =
     (case GetButton mb i of Inl e \<Rightarrow> Inl e | Inr b \<Rightarrow> Inr (GetId b))"

text \<open>
  \<^verbatim>\<open>int GetCount() const { return m_buttons.Count(); }\<close>: the number of elements,
  a \<^verbatim>\<open>size_t\<close>, converted to \<^verbatim>\<open>int\<close>.
\<close>

definition GetCount :: "wxPGMultiButton \<Rightarrow> cint" where
  "GetCount mb = word_of_nat (length (m_buttons mb))"

text \<open>
  \<^verbatim>\<open>return wxSize(m_fullEditorSize.x - m_buttonsWidth, m_fullEditorSize.y);\<close>
\<close>

definition GetPrimarySize :: "wxPGMultiButton \<Rightarrow> wxSize" where
  "GetPrimarySize mb =
     wxSize (size_x (m_fullEditorSize mb) - m_buttonsWidth mb) (size_y (m_fullEditorSize mb))"

text \<open>
  Modelled from the spec: \<^verbatim>\<open>wxWindow::Move\<close>, which belongs to the window base class
  and has no code in the header. \<^verbatim>\<open>FinalizePosition\<close> "repositions the button
  cluster": the window is placed at the coordinates given.
\<close>

definition Move :: "cint \<Rightarrow> cint \<Rightarrow> wxPGMultiButton \<Rightarrow> wxPGMultiButton" where
  "Move x y mb = mb\<lparr>m_position := wxPoint x y\<rparr>"

text \<open>
  \<^verbatim>\<open>void FinalizePosition( const wxPoint& pos )
  { Move( pos.x + m_fullEditorSize.x - m_buttonsWidth, pos.y ); }\<close>
\<close>

definition FinalizePosition :: "wxPoint \<Rightarrow> wxPGMultiButton \<Rightarrow> wxPGMultiButton" where
  "FinalizePosition pos mb =
     Move (point_x pos + size_x (m_fullEditorSize mb) - m_buttonsWidth mb) (point_y pos) mb"

text \<open>
  Modelled from the spec: the constructor
  \<^verbatim>\<open>wxPGMultiButton( wxPropertyGrid* pg, const wxSize& sz )\<close>, declared without a
  body. The spec lists the attributes of the control as the ordered sequence of
  buttons, "the full editor cell size, and the combined width consumed by all buttons";
  a new control has no button, so that width is 0, and \<open>sz\<close> is the cell size. The
  grid \<^verbatim>\<open>pg\<close> is only the parent of the window. Where the window is created is not
  stated: the position is the parameter \<open>pos0\<close>.
\<close>

definition wxPGMultiButton_ctor :: "wxPoint \<Rightarrow> wxSize \<Rightarrow> wxPGMultiButton" where
  "wxPGMultiButton_ctor pos0 sz =
     \<lparr>m_position = pos0, m_buttons = [], m_fullEditorSize = sz, m_buttonsWidth = 0\<rparr>"

text \<open>
  \<^verbatim>\<open>void Add( const wxString& label, int id = -2 );\<close>
  \<^verbatim>\<open>void Add( const wxBitmap& bitmap, int id = -2 );\<close>

  The default argument of both overloads.
\<close>

definition default_id :: cint where
  "default_id = - 2"

text \<open>
  Modelled from the spec: the bodies of the two \<^verbatim>\<open>Add\<close> overloads, declared without
  one. The spec: "appends a text button; id auto-assigned (negative sentinel) unless
  caller supplies a value; returns nothing but updates the running buttons-width
  total", and for a bitmap "appends an image button, same identity rule". The width of
  the button created is decided by the toolkit and is the parameter \<open>width\<close>. The
  argument \<^verbatim>\<open>id\<close> is written \<open>ident\<close>. How an identifier is chosen for the sentinel
  is not stated; the identifier chosen is the parameter \<open>auto_id\<close>.
\<close>

definition AddButton ::
  "button_face \<Rightarrow> cint \<Rightarrow> cint \<Rightarrow> cint \<Rightarrow> wxPGMultiButton \<Rightarrow> wxPGMultiButton" where
  "AddButton face ident auto_id width mb =
     mb\<lparr>m_buttons := m_buttons mb @
           [\<lparr>button_face = face,
             m_windowId = (if ident = default_id then auto_id else ident),
             button_width = width\<rparr>],
        m_buttonsWidth := m_buttonsWidth mb + width\<rparr>"

definition Add_label ::
  "string \<Rightarrow> cint \<Rightarrow> cint \<Rightarrow> cint \<Rightarrow> wxPGMultiButton \<Rightarrow> wxPGMultiButton" where
  "Add_label label ident auto_id width mb = AddButton (Label label) ident auto_id width mb"

definition Add_bitmap ::
  "nat \<Rightarrow> cint \<Rightarrow> cint \<Rightarrow> cint \<Rightarrow> wxPGMultiButton \<Rightarrow> wxPGMultiButton" where
  "Add_bitmap bitmap ident auto_id width mb = AddButton (Bitmap bitmap) ident auto_id width mb"

text \<open>
  One call of \<^verbatim>\<open>Add\<close>: what is shown, the \<^verbatim>\<open>id\<close> argument, the identifier chosen
  for the sentinel, and the width of the button created. A sequence of calls is run
  from left to right.
\<close>

record add_call =
  call_face :: button_face
  call_id :: cint
  call_auto_id :: cint
  call_width :: cint

definition Add :: "add_call \<Rightarrow> wxPGMultiButton \<Rightarrow> wxPGMultiButton" where
  "Add c mb =
     (case call_face c of
        Label label \<Rightarrow> Add_label label (call_id c) (call_auto_id c) (call_width c) mb
      | Bitmap bitmap \<Rightarrow> Add_bitmap bitmap (call_id c) (call_auto_id c) (call_width c) mb)"

text \<open>The identifier of the button that a call creates.\<close>

definition stored_id :: "add_call \<Rightarrow> cint" where
  "stored_id c = (if call_id c = default_id then call_auto_id c else call_id c)"

fun Adds :: "add_call list \<Rightarrow> wxPGMultiButton \<Rightarrow> wxPGMultiButton" where
  "Adds [] mb = mb"
| "Adds (c # cs) mb = Adds cs (Add c mb)"

text \<open>The total width of the buttons a sequence of calls creates.\<close>

definition total_width :: "add_call list \<Rightarrow> cint" where
  "total_width cs = sum_list (map call_width cs)"

text \<open>
  Modelled from the spec: the horizontal extent of the button cluster. The geometry of
  the window is kept by \<^verbatim>\<open>wxWindow\<close>, outside the header. By the spec the buttons are
  laid out contiguously and \<^verbatim>\<open>m_buttonsWidth\<close> is "the combined width consumed by all
  buttons", so the cluster reaches from the window's position to that position plus
  \<^verbatim>\<open>m_buttonsWidth\<close>.
\<close>

definition cluster_left :: "wxPGMultiButton \<Rightarrow> cint" where
  "cluster_left mb = point_x (m_position mb)"

definition cluster_right :: "wxPGMultiButton \<Rightarrow> cint" where
  "cluster_right mb = point_x (m_position mb) + m_buttonsWidth mb"

subsection \<open>A concrete control\<close>

text \<open>
  The control of the header's own example, in a cell of 100 by 20 created at the
  origin: a text button with identifier 5 and width 20, then a bitmap button with
  identifier 7 and width 16.
\<close>

definition example_calls :: "add_call list" where
  "example_calls =
     [\<lparr>call_face = Label ''...'', call_id = 5, call_auto_id = 0, call_width = 20\<rparr>,
      \<lparr>call_face = Bitmap 0, call_id = 7, call_auto_id = 0, call_width = 16\<rparr>]"

definition example_buttons :: wxPGMultiButton where
  "example_buttons = Adds example_calls (wxPGMultiButton_ctor (wxPoint 0 0) (wxSize 100 20))"

section \<open>Properties\<close>

subsection \<open>What \<^verbatim>\<open>Add\<close> changes\<close>

lemma Add_fullEditorSize: "m_fullEditorSize (Add c mb) = m_fullEditorSize mb"
  by (simp add: Add_def Add_label_def Add_bitmap_def AddButton_def split: button_face.split)

lemma Add_buttonsWidth: "m_buttonsWidth (Add c mb) = m_buttonsWidth mb + call_width c"
  by (simp add: Add_def Add_label_def Add_bitmap_def AddButton_def split: button_face.split)

lemma Add_position: "m_position (Add c mb) = m_position mb"
  by (simp add: Add_def Add_label_def Add_bitmap_def AddButton_def split: button_face.split)

lemma Add_length: "length (m_buttons (Add c mb)) = Suc (length (m_buttons mb))"
  by (simp add: Add_def Add_label_def Add_bitmap_def AddButton_def split: button_face.split)

lemma Adds_fullEditorSize: "m_fullEditorSize (Adds cs mb) = m_fullEditorSize mb"
  by (induction cs arbitrary: mb) (simp_all add: Add_fullEditorSize)

lemma Adds_buttonsWidth: "m_buttonsWidth (Adds cs mb) = m_buttonsWidth mb + total_width cs"
  by (induction cs arbitrary: mb) (simp_all add: Add_buttonsWidth total_width_def add.assoc)

lemma Adds_position: "m_position (Adds cs mb) = m_position mb"
  by (induction cs arbitrary: mb) (simp_all add: Add_position)

lemma Adds_length: "length (m_buttons (Adds cs mb)) = length (m_buttons mb) + length cs"
  by (induction cs arbitrary: mb) (simp_all add: Add_length)

lemma Add_buttons:
  "m_buttons (Add c mb) =
     m_buttons mb @
       [\<lparr>button_face = call_face c, m_windowId = stored_id c, button_width = call_width c\<rparr>]"
  by (simp add: Add_def Add_label_def Add_bitmap_def AddButton_def stored_id_def
      split: button_face.split)

text \<open>
  The identifiers read back from the control are those of the buttons it was constructed
  with, in the order of the calls.
\<close>

lemma Adds_button_ids:
  "map GetId (m_buttons (Adds cs mb)) = map GetId (m_buttons mb) @ map stored_id cs"
  by (induction cs arbitrary: mb) (simp_all add: Add_buttons GetId_def)

subsection \<open>The size left to the primary control\<close>

text \<open>
  C1. A control constructed for a cell of size \<open>(w, h)\<close>, after any sequence of
  \<^verbatim>\<open>Add\<close> calls, has accumulated in \<^verbatim>\<open>m_buttonsWidth\<close> the total width \<open>bw\<close> of
  the buttons added, and \<^verbatim>\<open>GetPrimarySize\<close> returns exactly \<open>(w - bw, h)\<close>: the cell
  width minus the total button width, and the full cell height. The subtraction is that
  of \<^verbatim>\<open>int\<close>.
\<close>

theorem GetPrimarySize_after_Adds:
  "m_buttonsWidth (Adds cs (wxPGMultiButton_ctor pos0 (wxSize w h))) = total_width cs \<and>
   GetPrimarySize (Adds cs (wxPGMultiButton_ctor pos0 (wxSize w h))) =
     wxSize (w - total_width cs) h"
  by (simp add: GetPrimarySize_def Adds_buttonsWidth Adds_fullEditorSize
      wxPGMultiButton_ctor_def)

text \<open>
  Read as signed values, the width returned is the difference of the two widths whenever
  that difference is an \<^verbatim>\<open>int\<close>.
\<close>

lemma GetPrimarySize_sint:
  assumes "- (2 ^ 31) \<le> sint (size_x (m_fullEditorSize mb)) - sint (m_buttonsWidth mb)"
    and "sint (size_x (m_fullEditorSize mb)) - sint (m_buttonsWidth mb) < 2 ^ 31"
  shows "sint (size_x (GetPrimarySize mb)) =
           sint (size_x (m_fullEditorSize mb)) - sint (m_buttonsWidth mb)"
  using assms
  by (simp add: GetPrimarySize_def sint_word_ariths signed_take_bit_int_eq_self)

subsection \<open>The client data of a new editor\<close>

text \<open>
  C9. A freshly constructed \<^verbatim>\<open>wxPGEditor\<close> has \<^verbatim>\<open>m_clientData\<close> equal to
  \<^verbatim>\<open>NULL\<close>: it carries no client data until some is assigned.
\<close>

theorem wxPGEditor_ctor_clientData_NULL:
  "m_clientData wxPGEditor_ctor = NULL"
  by (simp add: wxPGEditor_ctor_def)

subsection \<open>Where \<^verbatim>\<open>FinalizePosition\<close> puts the buttons\<close>

lemma FinalizePosition_position:
  "m_position (FinalizePosition pos mb) =
     wxPoint (point_x pos + size_x (m_fullEditorSize mb) - m_buttonsWidth mb) (point_y pos)"
  by (simp add: FinalizePosition_def Move_def)

lemma FinalizePosition_frame:
  "m_buttons (FinalizePosition pos mb) = m_buttons mb"
  "m_fullEditorSize (FinalizePosition pos mb) = m_fullEditorSize mb"
  "m_buttonsWidth (FinalizePosition pos mb) = m_buttonsWidth mb"
  by (simp_all add: FinalizePosition_def Move_def)

lemma FinalizePosition_cluster_right:
  "cluster_right (FinalizePosition pos mb) = point_x pos + size_x (m_fullEditorSize mb)"
  by (simp add: cluster_right_def FinalizePosition_position FinalizePosition_frame)

text \<open>
  C3. For a control with cell width \<open>w\<close> and any sequence of added buttons (none, one
  or many), \<^verbatim>\<open>FinalizePosition(origin)\<close> places the button cluster so that its right
  edge is at the x-coordinate \<open>origin.x + w\<close>.
\<close>

theorem FinalizePosition_right_edge:
  "cluster_right (FinalizePosition origin (Adds cs (wxPGMultiButton_ctor pos0 (wxSize w h)))) =
     point_x origin + w"
  by (simp add: FinalizePosition_cluster_right Adds_fullEditorSize wxPGMultiButton_ctor_def)

text \<open>
  C7. On a control on which \<^verbatim>\<open>Add\<close> was never called, \<^verbatim>\<open>GetPrimarySize\<close> returns
  the full cell size, and \<^verbatim>\<open>FinalizePosition(origin)\<close> places the empty cluster, of
  accumulated width zero, at the right end of the cell: the primary control keeps the
  full cell, before and after the call. Neither operation has a failing branch.
\<close>

theorem no_Add_full_cell:
  "GetPrimarySize (wxPGMultiButton_ctor pos0 sz) = sz \<and>
   m_buttonsWidth (FinalizePosition origin (wxPGMultiButton_ctor pos0 sz)) = 0 \<and>
   m_position (FinalizePosition origin (wxPGMultiButton_ctor pos0 sz)) =
     wxPoint (point_x origin + size_x sz) (point_y origin) \<and>
   cluster_left (FinalizePosition origin (wxPGMultiButton_ctor pos0 sz)) =
     point_x origin + size_x sz \<and>
   cluster_right (FinalizePosition origin (wxPGMultiButton_ctor pos0 sz)) =
     point_x origin + size_x sz \<and>
   GetPrimarySize (FinalizePosition origin (wxPGMultiButton_ctor pos0 sz)) = sz"
  by (simp add: GetPrimarySize_def cluster_left_def cluster_right_def
      FinalizePosition_position FinalizePosition_frame wxPGMultiButton_ctor_def)

text \<open>
  C10. \<^verbatim>\<open>FinalizePosition\<close> is idempotent: a second call with the same origin, with
  no \<^verbatim>\<open>Add\<close> in between, leaves the control, and so the position of the cluster, as
  the first call left it.
\<close>

theorem FinalizePosition_idempotent:
  "FinalizePosition origin (FinalizePosition origin mb) = FinalizePosition origin mb"
  by (simp add: FinalizePosition_def Move_def)

subsection \<open>Access to the buttons\<close>

lemma unat_GetCount_le: "unat (GetCount mb) \<le> length (m_buttons mb)"
  by (simp add: GetCount_def unat_of_nat)

text \<open>
  C6. \<^verbatim>\<open>GetButton(i)\<close> and \<^verbatim>\<open>GetButtonId(i)\<close> require \<open>i < GetCount()\<close>, the
  comparison being the one C++ makes between an \<^verbatim>\<open>unsigned int\<close> and an
  \<^verbatim>\<open>int\<close>. Under it the index is inside \<^verbatim>\<open>m_buttons\<close>: both calls return the
  button at \<open>i\<close> and its identifier, and the out-of-range branch is not taken. An index
  at or beyond the number of buttons is the precondition violation.
\<close>

theorem GetButton_in_bounds:
  assumes "i < GetCount mb"
  shows "unat i < length (m_buttons mb) \<and>
         GetButton mb i = Inr (m_buttons mb ! unat i) \<and>
         GetButtonId mb i = Inr (GetId (m_buttons mb ! unat i)) \<and>
         GetButton mb i \<noteq> Inl IndexOutOfRange \<and>
         GetButtonId mb i \<noteq> Inl IndexOutOfRange"
proof -
  from assms have "unat i < unat (GetCount mb)"
    by (simp add: word_less_nat_alt)
  with unat_GetCount_le [of mb] have "unat i < length (m_buttons mb)"
    by simp
  then show ?thesis
    by (simp add: GetButton_def GetButtonId_def)
qed

theorem GetButton_in_bounds_witness:
  "(1 :: cuint) < GetCount example_buttons \<and>
   GetButton example_buttons 1 =
     Inr \<lparr>button_face = Bitmap 0, m_windowId = 7, button_width = 16\<rparr> \<and>
   GetButtonId example_buttons 1 = Inr 7"
proof -
  have h: "(1 :: cuint) < GetCount example_buttons"
    by (simp add: example_buttons_def example_calls_def GetCount_def Add_length
        wxPGMultiButton_ctor_def)
  from GetButton_in_bounds [OF h] h show ?thesis
    by (simp add: example_buttons_def example_calls_def Add_def Add_label_def Add_bitmap_def
        AddButton_def wxPGMultiButton_ctor_def GetId_def default_id_def)
qed

text \<open>
  The comparison of \<open>i\<close> with \<^verbatim>\<open>GetCount()\<close> as signed values is at least as
  strong as the unsigned one, so the same holds for a caller that compares the two as
  \<^verbatim>\<open>int\<close>.
\<close>

lemma sint_nonneg_uint:
  fixes w :: "32 word"
  assumes "0 \<le> sint w"
  shows "sint w = uint w"
proof -
  have eq: "sint w = uint w - 2 ^ 32 * of_bool (bit (uint w) 31)"
    by (simp add: sint_uint signed_take_bit_eq_take_bit_minus bintr_uint)
  have lt: "uint w < 2 ^ 32"
    using uint_bounded [of w] by simp
  show ?thesis
  proof (cases "bit (uint w) 31")
    case True
    with eq lt assms show ?thesis by simp
  next
    case False
    with eq show ?thesis by simp
  qed
qed

lemma signed_less_GetCount:
  assumes "int (unat i) < sint (GetCount mb)"
  shows "i < GetCount mb"
proof -
  have "0 \<le> int (unat i)" by simp
  with assms have "0 \<le> sint (GetCount mb)" by linarith
  then have "sint (GetCount mb) = uint (GetCount mb)" by (rule sint_nonneg_uint)
  with assms have "int (unat i) < int (unat (GetCount mb))" by (simp only: uint_nat)
  then have "unat i < unat (GetCount mb)" by (simp only: of_nat_less_iff)
  then show ?thesis by (simp add: word_less_nat_alt)
qed

lemma GetButton_out_of_range:
  "length (m_buttons mb) \<le> unat i \<Longrightarrow>
     GetButton mb i = Inl IndexOutOfRange \<and> GetButtonId mb i = Inl IndexOutOfRange"
  by (simp add: GetButton_def GetButtonId_def)

subsection \<open>The default list hooks\<close>

text \<open>
  C8. For an editor without a list representation, the default \<^verbatim>\<open>InsertItem\<close>
  leaves the control as it is and returns the sentinel \<open>-1\<close>, and the default
  \<^verbatim>\<open>DeleteItem\<close> leaves the control as it is. Neither has an error result.
\<close>

theorem default_InsertItem_DeleteItem:
  "InsertItem ctrl label index = (ctrl, - 1) \<and>
   sint (snd (InsertItem ctrl label index)) = - 1 \<and>
   DeleteItem ctrl index' = ctrl"
  by (simp add: InsertItem_def DeleteItem_def)

end
